theory Spec2Isabelle
  imports Main "HOL-Library.Word"
begin

section \<open>The upload command of \<^verbatim>\<open>src/commands/upload.ts\<close>\<close>

text \<open>
  The command is an asynchronous TypeScript function that talks to Discord, the file
  system, \<^verbatim>\<open>ffmpeg\<close>, YouTube, SoundCloud and the site. The embedding makes every call
  to one of these collaborators an \<^emph>\<open>effect\<close> in a trace, and takes the answer of each
  collaborator from a record \<open>world\<close> that describes one run. A promise that rejects is
  the value \<open>Rejects e\<close>, a promise that never settles is the outcome \<open>NeverSettles\<close>.
\<close>

subsection \<open>JavaScript strings\<close>

text \<open>A JavaScript string is a sequence of UTF-16 code units.\<close>

type_synonym code_unit = "16 word"
type_synonym jstring = "code_unit list"
type_synonym bytes = "8 word list"

definition str :: "string \<Rightarrow> jstring" where
  "str s = map of_char s"

definition nl :: jstring where
  "nl = [0x0A]"

definition dq :: jstring where
  "dq = [0x22]"

definition sq :: jstring where
  "sq = [0x27]"

definition fence :: jstring where
  "fence = [0x60, 0x60, 0x60]"

definition comma :: code_unit where
  "comma = 0x2C"

text \<open>
  \<^verbatim>\<open>String.prototype.trim\<close> removes WhiteSpace and LineTerminator code points
  (ECMA-262, 22.1.3.32); all of them are single code units.
\<close>

definition isWhiteSpace :: "code_unit \<Rightarrow> bool" where
  "isWhiteSpace c =
     (c \<in> set [0x0009, 0x000A, 0x000B, 0x000C, 0x000D, 0x0020, 0x00A0, 0x1680,
               0x2000, 0x2001, 0x2002, 0x2003, 0x2004, 0x2005, 0x2006, 0x2007,
               0x2008, 0x2009, 0x200A, 0x2028, 0x2029, 0x202F, 0x205F, 0x3000,
               0xFEFF])"

definition trim_js :: "jstring \<Rightarrow> jstring" where
  "trim_js s = rev (dropWhile isWhiteSpace (rev (dropWhile isWhiteSpace s)))"

text \<open>\<^verbatim>\<open>s.split(sep)\<close> for a separator of one code unit: \<^verbatim>\<open>"".split(",")\<close> is \<^verbatim>\<open>[""]\<close>.\<close>

fun split_js :: "'a \<Rightarrow> 'a list \<Rightarrow> 'a list list" where
  "split_js sep [] = [[]]"
| "split_js sep (c # cs) =
     (if c = sep then [] # split_js sep cs
      else (case split_js sep cs of [] \<Rightarrow> [[c]] | p # ps \<Rightarrow> (c # p) # ps))"

text \<open>\<^verbatim>\<open>xs.join(sep)\<close>: the empty array joins to the empty string.\<close>

fun join_js :: "'a list \<Rightarrow> 'a list list \<Rightarrow> 'a list" where
  "join_js sep [] = []"
| "join_js sep [x] = x"
| "join_js sep (x # y # ys) = x @ sep @ join_js sep (y # ys)"

definition endsWith :: "'a list \<Rightarrow> 'a list \<Rightarrow> bool" where
  "endsWith s suf = (length suf \<le> length s \<and> drop (length s - length suf) s = suf)"

text \<open>An array is an object, and every object is truthy, the empty array too.\<close>

definition array_truthy :: "'a list \<Rightarrow> bool" where
  "array_truthy xs = True"

subsection \<open>Requests\<close>

record attachment =
  name :: jstring
  url :: jstring

record interaction =
  user_id :: jstring
  channel_sendable :: bool
  opt_audio :: "attachment option"
  opt_image :: "attachment option"
  opt_title :: "jstring option"
  opt_description :: "jstring option"
  opt_tags :: "jstring option"

record config =
  canUseYoutube :: bool
  canUseSoundcloud :: bool
  feed :: jstring
  siteUrl :: "jstring \<Rightarrow> jstring"

text \<open>Line 109: the tag list of the \<^verbatim>\<open>tags\<close> option.\<close>

definition parse_tags :: "jstring \<Rightarrow> jstring list" where
  "parse_tags tagsString =
     (if length tagsString = 0 then [] else map trim_js (split_js comma tagsString))"

text \<open>
  The reading of the specification: comma-separated entries, trimmed, the empty ones
  dropped. It is here to be compared with \<open>parse_tags\<close>.
\<close>

definition spec_parse_tags :: "jstring \<Rightarrow> jstring list" where
  "spec_parse_tags tagsString =
     filter (\<lambda>t. t \<noteq> []) (map trim_js (split_js comma tagsString))"

record request =
  req_audio :: attachment
  req_image :: attachment
  req_title :: jstring
  req_description :: jstring
  req_tagsString :: jstring
  req_tags :: "jstring list"

text \<open>
  Lines 104 to 126. \<^verbatim>\<open>getString("description") || ""\<close> and
  \<^verbatim>\<open>getString("tags") ?? ""\<close> both turn an absent option into the empty string.
  The result is the message of the rejection, or the values the rest of the run uses.
\<close>

definition validate :: "interaction \<Rightarrow> jstring + request" where
  "validate i =
     (let description = (case opt_description i of None \<Rightarrow> [] | Some d \<Rightarrow> d);
          tagsString = (case opt_tags i of None \<Rightarrow> [] | Some t \<Rightarrow> t);
          tags = parse_tags tagsString
      in case (opt_audio i, opt_image i, opt_title i) of
           (Some audio, Some img, Some title) \<Rightarrow>
             if \<not> endsWith (name audio) (str ''.mp3'') \<and> \<not> endsWith (name audio) (str ''.wav'')
             then Inl (str ''The audio file must be an mp3 or wav file'')
             else if \<not> endsWith (name img) (str ''.png'') \<and> \<not> endsWith (name img) (str ''.jpg'')
             then Inl (str ''The image file must be a png or jpg file'')
             else Inr \<lparr>req_audio = audio, req_image = img, req_title = title,
                       req_description = description, req_tagsString = tagsString,
                       req_tags = tags\<rparr>
         | _ \<Rightarrow> Inl (str ''You must provide both an audio and image file, and a title''))"

subsection \<open>Effects and the answers of the collaborators\<close>

datatype 'a io = Rejects jstring | Resolves 'a

datatype form_value = Text jstring | Blob jstring jstring

datatype effect =
    DeferReply
  | Respond jstring bool
  | ChannelSend jstring
  | DeletePrompt
  | FollowUp jstring bool
  | Mkdir jstring
  | Fetch jstring
  | WriteFile jstring bytes
  | Exec jstring
  | YoutubeUpload jstring jstring "jstring list" jstring
  | SoundcloudUpload jstring jstring "jstring list" jstring jstring
  | ChannelsFetch jstring
  | FeedSend jstring
  | ConsoleError jstring "jstring option"
  | OpenAsBlob jstring
  | FetchHMAC jstring "(jstring \<times> form_value) list"
  | Unlink jstring

record click =
  clicker :: jstring
  customId :: jstring
  delete_ok :: bool

text \<open>
  \<open>Deleted k\<close>: the deletion settles that the handler at place \<open>k\<close> among the suspended
  handlers waits for. \<open>TimeUp\<close>: the timer of the collector fires.
\<close>

datatype gate_event = Click click | Deleted nat | TimeUp

record yt_data =
  video_id :: jstring
  uploadStatus :: "jstring option"

record exec_result =
  err :: "jstring option"
  stdout :: jstring
  stderr :: jstring

datatype feed_result =
    FeedFetchRejects jstring
  | FeedNotSendable
  | FeedSendRejects jstring
  | FeedSent

text \<open>
  One run. \<open>sha256hex\<close>, \<open>extname\<close> and \<open>stringify\<close> are the library functions
  \<^verbatim>\<open>createHash("sha256").update(s).digest("hex")\<close>, \<^verbatim>\<open>path.extname\<close> and
  \<^verbatim>\<open>JSON.stringify(d, null, 2)\<close>. \<open>events\<close> is what happens to the collector of the
  prompt, in order: a click on the prompt arrives, the deletion that a suspended handler
  waits for settles, the 60 seconds are over. A click carries the answer that
  \<^verbatim>\<open>update.delete()\<close> will give to its handler. A fetch resolves with a status and a
  body whatever the status is; it rejects on a network failure. The calls to Discord other
  than \<^verbatim>\<open>update.delete()\<close> and the feed are taken to succeed, and what \<^verbatim>\<open>unlink\<close>
  answers is not part of the world, since \<^verbatim>\<open>Promise.allSettled\<close> never rejects.
\<close>

record world =
  sha256hex :: "jstring \<Rightarrow> jstring"
  extname :: "jstring \<Rightarrow> jstring"
  stringify :: "yt_data \<Rightarrow> jstring"
  ids_yes :: jstring
  ids_no :: jstring
  events :: "gate_event list"
  mkdir_io :: "unit io"
  fetch_audio :: "(nat \<times> bytes) io"
  write_audio :: "unit io"
  fetch_image :: "(nat \<times> bytes) io"
  write_image :: "unit io"
  exec_io :: exec_result
  youtube_io :: "yt_data io"
  soundcloud_io :: "jstring io"
  feed_io :: feed_result
  open_audio :: "unit io"
  open_image :: "unit io"
  hmac_io :: "unit io"

text \<open>One awaited call, and the sequencing of \<^verbatim>\<open>await\<close>: a rejection ends the function.\<close>

definition call :: "effect \<Rightarrow> 'a io \<Rightarrow> effect list \<times> 'a io" where
  "call e r = ([e], r)"

definition await :: "effect list \<times> 'a io \<Rightarrow> ('a \<Rightarrow> effect list \<times> 'b io) \<Rightarrow> effect list \<times> 'b io" where
  "await m k =
     (case m of
        (es, Rejects e) \<Rightarrow> (es, Rejects e)
      | (es, Resolves x) \<Rightarrow> (case k x of (es', r) \<Rightarrow> (es @ es', r)))"

subsection \<open>The confirmation gate (lines 150 to 172)\<close>

datatype decision = Confirmed | Declined | TimedOut

text \<open>
  The three calls of \<^verbatim>\<open>resolve\<close>: \<^verbatim>\<open>resolve(true)\<close> in the first branch of the
  handler, \<^verbatim>\<open>resolve(false)\<close> in the second, \<^verbatim>\<open>resolve(false)\<close> in the end handler.
\<close>

fun promise_value :: "decision \<Rightarrow> bool" where
  "promise_value Confirmed = True"
| "promise_value Declined = False"
| "promise_value TimedOut = False"

text \<open>
  The state of the collector and of the closure: the variable \<^verbatim>\<open>timeout\<close>, whether the
  collector has ended, the calls of \<^verbatim>\<open>resolve\<close> so far, the calls to Discord so far,
  and the handlers that are suspended at \<^verbatim>\<open>await update.delete()\<close>, in the order of
  their clicks: each with the decision it will resolve to and the answer of its deletion.
\<close>

record collector =
  timeout :: bool
  ended :: bool
  resolved :: "decision list"
  trace :: "effect list"
  pending :: "(decision \<times> bool) list"

definition new_collector :: collector where
  "new_collector = \<lparr>timeout = True, ended = False, resolved = [], trace = [], pending = []\<rparr>"

definition too_long :: jstring where
  "too_long = str ''You took too long to respond''"

definition on_end :: "collector \<Rightarrow> collector" where
  "on_end c =
     (if timeout c
      then c\<lparr>resolved := resolved c @ [TimedOut], trace := trace c @ [FollowUp too_long True]\<rparr>
      else c)"

text \<open>\<^verbatim>\<open>collector.stop()\<close> does nothing on an ended collector; otherwise it emits \<^verbatim>\<open>end\<close>.\<close>

definition stop :: "collector \<Rightarrow> collector" where
  "stop c = (if ended c then c else on_end (c\<lparr>ended := True\<rparr>))"

text \<open>
  The \<^verbatim>\<open>collect\<close> handler up to its \<^verbatim>\<open>await\<close>: it clears \<^verbatim>\<open>timeout\<close>, and when the
  click carries one of the two ids it calls \<^verbatim>\<open>update.delete()\<close> and is suspended. The
  collector goes on collecting meanwhile.
\<close>

definition on_collect :: "jstring \<Rightarrow> jstring \<Rightarrow> collector \<Rightarrow> click \<Rightarrow> collector" where
  "on_collect yes no c i =
     (let c1 = c\<lparr>timeout := False\<rparr> in
      if customId i = yes then
        c1\<lparr>trace := trace c1 @ [DeletePrompt], pending := pending c1 @ [(Confirmed, delete_ok i)]\<rparr>
      else if customId i = no then
        c1\<lparr>trace := trace c1 @ [DeletePrompt], pending := pending c1 @ [(Declined, delete_ok i)]\<rparr>
      else c1)"

text \<open>
  The rest of the handler, when its deletion has settled: \<^verbatim>\<open>stop()\<close> and then
  \<^verbatim>\<open>resolve\<close>. When the deletion rejects, the handler rejects there and reaches neither.
\<close>

definition after_delete :: "collector \<Rightarrow> decision \<times> bool \<Rightarrow> collector" where
  "after_delete c h =
     (if snd h then (let c3 = stop c in c3\<lparr>resolved := resolved c3 @ [fst h]\<rparr>) else c)"

text \<open>
  One event. An ended collector collects nothing, and the filter lets only the requester
  through. A deletion that settles wakes its handler, whether the collector has ended or
  not.
\<close>

definition deliver :: "jstring \<Rightarrow> jstring \<Rightarrow> jstring \<Rightarrow> collector \<Rightarrow> gate_event \<Rightarrow> collector" where
  "deliver uid yes no c ev =
     (case ev of
        Click i \<Rightarrow> if ended c \<or> clicker i \<noteq> uid then c else on_collect yes no c i
      | Deleted k \<Rightarrow>
          if k < length (pending c)
          then after_delete (c\<lparr>pending := take k (pending c) @ drop (Suc k) (pending c)\<rparr>)
                 (pending c ! k)
          else c
      | TimeUp \<Rightarrow> stop c)"

text \<open>
  The events in their order. When they are over the time is up at the latest; a deletion
  that has not settled by then never settles.
\<close>

definition confirmation :: "jstring \<Rightarrow> jstring \<Rightarrow> jstring \<Rightarrow> gate_event list \<Rightarrow> collector" where
  "confirmation uid yes no evs = stop (foldl (deliver uid yes no) new_collector evs)"

text \<open>A promise takes the value of the first call of \<^verbatim>\<open>resolve\<close>; with none it stays pending.\<close>

definition settled :: "collector \<Rightarrow> decision option" where
  "settled c = (case resolved c of [] \<Rightarrow> None | d # _ \<Rightarrow> Some d)"

text \<open>
  A click acts when it passes the filter, carries one of the two ids of the prompt, and its
  handler gets the prompt deleted. It selects the decision of its id.
\<close>

definition acts :: "jstring \<Rightarrow> jstring \<Rightarrow> jstring \<Rightarrow> click \<Rightarrow> bool" where
  "acts uid yes no i = (clicker i = uid \<and> delete_ok i \<and> (customId i = yes \<or> customId i = no))"

definition selects :: "jstring \<Rightarrow> jstring \<Rightarrow> jstring \<Rightarrow> decision \<Rightarrow> gate_event \<Rightarrow> bool" where
  "selects uid yes no d ev =
     (case ev of
        Click i \<Rightarrow> acts uid yes no i \<and> d = (if customId i = yes then Confirmed else Declined)
      | Deleted k \<Rightarrow> False
      | TimeUp \<Rightarrow> False)"

definition acting :: "jstring \<Rightarrow> jstring \<Rightarrow> jstring \<Rightarrow> gate_event \<Rightarrow> bool" where
  "acting uid yes no ev =
     (case ev of Click i \<Rightarrow> acts uid yes no i | Deleted k \<Rightarrow> False | TimeUp \<Rightarrow> False)"


text \<open>Events that leave a collector alone that has collected nothing yet.\<close>

definition idle :: "jstring \<Rightarrow> gate_event \<Rightarrow> bool" where
  "idle uid ev = (case ev of Click i \<Rightarrow> clicker i \<noteq> uid | Deleted k \<Rightarrow> True | TimeUp \<Rightarrow> False)"

text \<open>
  The clicks handled one at a time: the deletion of each click settles before the next
  click arrives.
\<close>

definition one_at_a_time :: "click list \<Rightarrow> gate_event list" where
  "one_at_a_time cs = concat (map (\<lambda>i. [Click i, Deleted 0]) cs)"

text \<open>The collector after a timeout with no click collected.\<close>

definition timed_out :: collector where
  "timed_out = \<lparr>timeout = True, ended = True, resolved = [TimedOut],
                 trace = [FollowUp too_long True], pending = []\<rparr>"

subsection \<open>Paths and payloads\<close>

definition placeholder :: jstring where
  "placeholder = str ''https://example.com/''"

definition audioPath :: "world \<Rightarrow> attachment \<Rightarrow> jstring" where
  "audioPath w audio =
     str ''./.tmp/'' @ sha256hex w (url audio)
       @ (if endsWith (name audio) (str ''.mp3'') then str ''.mp3'' else str ''.wav'')"

definition imagePath :: "world \<Rightarrow> attachment \<Rightarrow> jstring" where
  "imagePath w img =
     str ''./.tmp/'' @ sha256hex w (url img)
       @ (if endsWith (name img) (str ''.png'') then str ''.png'' else str ''.jpg'')"

definition videoPath :: "interaction \<Rightarrow> jstring" where
  "videoPath i = str ''./.tmp/'' @ user_id i @ str ''.mp4''"

definition ffmpeg :: "jstring \<Rightarrow> jstring \<Rightarrow> jstring \<Rightarrow> jstring" where
  "ffmpeg image_path audio_path video_path =
     str ''ffmpeg -loop 1 -i '' @ dq @ image_path @ dq @ str '' -i '' @ dq @ audio_path @ dq
       @ str '' -vf '' @ dq @ str ''scale='' @ sq @ str ''min(1920, floor(iw/2)*2)'' @ sq
       @ str '':-2,format=yuv420p'' @ dq
       @ str '' -c:v libx264 -preset medium -profile:v main -c:a aac -shortest -movflags +faststart ''
       @ video_path"

text \<open>Line 28 and line 41: the two descriptions with their line of tags.\<close>

definition youtubeDescription :: "jstring \<Rightarrow> jstring list \<Rightarrow> jstring" where
  "youtubeDescription description tags =
     description @ nl @ nl @ str ''Tags: ''
       @ (if length tags > 0 then join_js (str '', '') tags else str ''N/A'')"

definition soundcloudDescription :: "jstring \<Rightarrow> jstring list \<Rightarrow> jstring" where
  "soundcloudDescription description tags =
     description @ nl @ nl @ str ''Tags: ''
       @ (if array_truthy tags then join_js (str '', '') tags else str ''N/A'')"

definition prompt :: "request \<Rightarrow> jstring" where
  "prompt r =
     str ''Title: '' @ req_title r @ nl
       @ str ''Description: ''
       @ (if req_description r = [] then str ''N/A'' else req_description r) @ nl
       @ str ''Tags: ''
       @ (if length (req_tags r) > 0 then join_js (str '', '') (req_tags r) else str ''N/A'')
       @ nl @ nl
       @ str ''Note that if your image has a vertical (tall)/square aspect ratio, it may end up being uploaded as a short instead.''
       @ nl @ str ''If you don'' @ sq @ str ''t want, then ensure your image is wide''
       @ nl @ nl @ str ''Is all of your information correct?''"

definition processing_failed :: "jstring \<Rightarrow> jstring" where
  "processing_failed diag =
     str ''An error occurred while processing the files'' @ nl @ fence @ nl @ diag @ nl @ fence"

definition video_failed :: "jstring \<Rightarrow> jstring" where
  "video_failed diag =
     str ''An error occurred while uploading the video'' @ nl @ fence @ nl @ diag @ nl @ fence"

definition song_failed :: "jstring \<Rightarrow> jstring" where
  "song_failed diag =
     str ''An error occurred while uploading the song'' @ nl @ fence @ nl @ diag @ nl @ fence"

record urls =
  youtubeUrl :: jstring
  soundcloudUrl :: jstring

definition uploaded :: "urls \<Rightarrow> jstring" where
  "uploaded u =
     str ''Uploaded to YouTube: '' @ youtubeUrl u @ nl
       @ str ''Uploaded to SoundCloud: '' @ soundcloudUrl u"

definition feed_message :: "interaction \<Rightarrow> jstring \<Rightarrow> urls \<Rightarrow> jstring" where
  "feed_message i title u =
     str ''Uploaded by <@'' @ user_id i @ str ''>'' @ nl
       @ str ''Title: '' @ title @ nl
       @ str ''YouTube: '' @ youtubeUrl u @ nl
       @ str ''SoundCloud: '' @ soundcloudUrl u"

subsection \<open>Publishing (lines 14 to 58)\<close>

text \<open>
  Lines 45 to 52. The promise is not awaited: the calls start here and their failures are
  logged inside the chain, so they cannot reject the caller.
\<close>

definition feed_notification :: "config \<Rightarrow> world \<Rightarrow> interaction \<Rightarrow> jstring \<Rightarrow> urls \<Rightarrow> effect list" where
  "feed_notification cfg w i title u =
     ChannelsFetch (feed cfg) #
     (case feed_io w of
        FeedFetchRejects e \<Rightarrow>
          [ConsoleError (str ''Failed to send message to feed channel'') (Some e)]
      | FeedNotSendable \<Rightarrow>
          [ConsoleError (str ''Failed to send message to feed channel: Channel is not sendable'') None]
      | FeedSendRejects e \<Rightarrow>
          [FeedSend (feed_message i title u),
           ConsoleError (str ''Failed to send message to feed channel'') (Some e)]
      | FeedSent \<Rightarrow> [FeedSend (feed_message i title u)])"

text \<open>
  The YouTube block. \<open>None\<close> is the bare \<^verbatim>\<open>return\<close> of line 34, \<open>Some u\<close> the value of
  \<^verbatim>\<open>youtubeUrl\<close> at line 38.
\<close>

definition upload_youtube ::
  "config \<Rightarrow> world \<Rightarrow> jstring \<Rightarrow> jstring \<Rightarrow> jstring \<Rightarrow> jstring list
     \<Rightarrow> effect list \<times> jstring option io" where
  "upload_youtube cfg w video_path title description tags =
     (if canUseYoutube cfg then
        await (call (YoutubeUpload title (youtubeDescription description tags) tags video_path)
                 (youtube_io w))
          (\<lambda>ytData.
             if uploadStatus ytData \<noteq> Some (str ''uploaded'')
             then ([Respond (video_failed (stringify w ytData)) True], Resolves None)
             else ([], Resolves (Some (str ''https://www.youtube.com/watch?v='' @ video_id ytData))))
      else ([], Resolves (Some placeholder)))"

definition upload_soundcloud ::
  "config \<Rightarrow> world \<Rightarrow> jstring \<Rightarrow> jstring \<Rightarrow> jstring \<Rightarrow> jstring \<Rightarrow> jstring list
     \<Rightarrow> effect list \<times> jstring io" where
  "upload_soundcloud cfg w audio_path image_path title description tags =
     (if canUseSoundcloud cfg then
        call (SoundcloudUpload title (soundcloudDescription description tags) tags
                audio_path image_path)
          (soundcloud_io w)
      else ([], Resolves placeholder))"

definition uploadToYoutubeAndSoundcloud ::
  "config \<Rightarrow> world \<Rightarrow> interaction \<Rightarrow> jstring \<Rightarrow> jstring \<Rightarrow> jstring \<Rightarrow> jstring \<Rightarrow> jstring
     \<Rightarrow> jstring list \<Rightarrow> effect list \<times> urls option io" where
  "uploadToYoutubeAndSoundcloud cfg w i audio_path image_path video_path title description tags =
     await (upload_youtube cfg w video_path title description tags)
       (\<lambda>yt. case yt of
          None \<Rightarrow> ([], Resolves None)
        | Some yt_url \<Rightarrow>
            await (upload_soundcloud cfg w audio_path image_path title description tags)
              (\<lambda>sc_url.
                 (let u = \<lparr>youtubeUrl = yt_url, soundcloudUrl = sc_url\<rparr>
                  in (feed_notification cfg w i title u, Resolves (Some u)))))"

subsection \<open>The run (lines 95 to 247)\<close>

datatype outcome = Returned | Threw jstring | CallbackThrew jstring | NeverSettles

text \<open>Lines 179 to 189.\<close>

definition download :: "world \<Rightarrow> request \<Rightarrow> effect list \<times> unit io" where
  "download w r =
     await (call (Mkdir (str ''.tmp'')) (mkdir_io w)) (\<lambda>_.
     await (call (Fetch (url (req_audio r))) (fetch_audio w)) (\<lambda>res.
     await (call (WriteFile (audioPath w (req_audio r)) (snd res)) (write_audio w)) (\<lambda>_.
     await (call (Fetch (url (req_image r))) (fetch_image w)) (\<lambda>res'.
     call (WriteFile (imagePath w (req_image r)) (snd res')) (write_image w)))))"

text \<open>Lines 191 to 194: \<^verbatim>\<open>fakeExec\<close> calls back at once, with no error and no output.\<close>

definition fakeExec :: exec_result where
  "fakeExec = \<lparr>err = None, stdout = [], stderr = []\<rparr>"

text \<open>Lines 220 to 224: the three calls of \<^verbatim>\<open>unlink\<close>, in the order of the array.\<close>

definition deleteTemporaryFiles :: "config \<Rightarrow> jstring \<Rightarrow> jstring \<Rightarrow> jstring \<Rightarrow> effect list" where
  "deleteTemporaryFiles cfg video_path audio_path image_path =
     (if canUseYoutube cfg then [Unlink video_path] else [])
       @ [Unlink audio_path, Unlink image_path]"

text \<open>Lines 231 to 243.\<close>

definition formData :: "world \<Rightarrow> request \<Rightarrow> urls \<Rightarrow> (jstring \<times> form_value) list" where
  "formData w r u =
     [(str ''title'', Text (req_title r)),
      (str ''soundcloudUrl'', Text (soundcloudUrl u)),
      (str ''youtubeUrl'', Text (youtubeUrl u)),
      (str ''track'', Blob (audioPath w (req_audio r))
                        (str ''track'' @ extname w (audioPath w (req_audio r)))),
      (str ''cover'', Blob (imagePath w (req_image r))
                        (str ''cover'' @ extname w (imagePath w (req_image r))))]
     @ (if req_tagsString r \<noteq> [] then [(str ''tags'', Text (req_tagsString r))] else [])"

definition submit :: "config \<Rightarrow> world \<Rightarrow> request \<Rightarrow> urls \<Rightarrow> effect list \<times> unit io" where
  "submit cfg w r u =
     await (call (OpenAsBlob (audioPath w (req_audio r))) (open_audio w)) (\<lambda>_.
     await (call (OpenAsBlob (imagePath w (req_image r))) (open_image w)) (\<lambda>_.
       (FetchHMAC (siteUrl cfg (str ''/api/sound'')) (formData w r u) #
        (case hmac_io w of
           Resolves _ \<Rightarrow> [Respond (uploaded u) False]
         | Rejects e \<Rightarrow> [Respond (song_failed e) True]),
        Resolves ())))"

text \<open>Lines 198 to 246: the callback given to \<^verbatim>\<open>exec\<close> or to \<^verbatim>\<open>fakeExec\<close>.\<close>

definition callback :: "config \<Rightarrow> world \<Rightarrow> interaction \<Rightarrow> request \<Rightarrow> exec_result \<Rightarrow> effect list \<times> unit io" where
  "callback cfg w i r x =
     (case err x of
        Some e \<Rightarrow> ([Respond (processing_failed (stderr x)) True], Resolves ())
      | None \<Rightarrow>
          (case uploadToYoutubeAndSoundcloud cfg w i (audioPath w (req_audio r))
                  (imagePath w (req_image r)) (videoPath i) (req_title r) (req_description r)
                  (req_tags r) of
             (es, Rejects e) \<Rightarrow> (es @ [Respond (video_failed e) True], Resolves ())
           | (es, Resolves None) \<Rightarrow>
               (es @ deleteTemporaryFiles cfg (videoPath i) (audioPath w (req_audio r))
                       (imagePath w (req_image r)),
                Resolves ())
           | (es, Resolves (Some u)) \<Rightarrow>
               await (es, Resolves ()) (\<lambda>_.
               await (submit cfg w r u) (\<lambda>_.
                 (deleteTemporaryFiles cfg (videoPath i) (audioPath w (req_audio r))
                    (imagePath w (req_image r)),
                  Resolves ())))))"

text \<open>Line 198: the encoder runs only when YouTube is enabled.\<close>

definition transcode :: "config \<Rightarrow> world \<Rightarrow> interaction \<Rightarrow> request \<Rightarrow> effect list \<times> exec_result" where
  "transcode cfg w i r =
     (if canUseYoutube cfg
      then ([Exec (ffmpeg (imagePath w (req_image r)) (audioPath w (req_audio r)) (videoPath i))],
            exec_io w)
      else ([], fakeExec))"

text \<open>Lines 174 to 246: what the run does with the value of the promise.\<close>

definition after_confirmation :: "config \<Rightarrow> world \<Rightarrow> interaction \<Rightarrow> request \<Rightarrow> bool \<Rightarrow> effect list \<times> outcome" where
  "after_confirmation cfg w i r result =
     (if \<not> result then ([Respond (str ''Cancelled'') True], Returned)
      else
        (case download w r of
           (es, Rejects e) \<Rightarrow> (es, Threw e)
         | (es, Resolves _) \<Rightarrow>
             (case transcode cfg w i r of
                (ex, x) \<Rightarrow>
                  (case callback cfg w i r x of
                     (es', Rejects e) \<Rightarrow> (es @ ex @ es', CallbackThrew e)
                   | (es', Resolves _) \<Rightarrow> (es @ ex @ es', Returned)))))"

definition run :: "config \<Rightarrow> world \<Rightarrow> interaction \<Rightarrow> effect list \<times> outcome" where
  "run cfg w i =
     (if \<not> channel_sendable i
      then ([DeferReply, Respond (str ''I cannot send messages in this channel'') True], Returned)
      else
        (case validate i of
           Inl msg \<Rightarrow> ([DeferReply, Respond msg True], Returned)
         | Inr r \<Rightarrow>
             (let c = confirmation (user_id i) (ids_yes w) (ids_no w) (events w)
              in case settled c of
                   None \<Rightarrow> ([DeferReply, ChannelSend (prompt r)] @ trace c, NeverSettles)
                 | Some d \<Rightarrow>
                     (case after_confirmation cfg w i r (promise_value d) of
                        (es, out) \<Rightarrow>
                          ([DeferReply, ChannelSend (prompt r)] @ trace c @ es, out)))))"

subsection \<open>Classes of effects\<close>

fun is_unlink :: "effect \<Rightarrow> bool" where
  "is_unlink (Unlink p) = True"
| "is_unlink _ = False"

fun is_exec :: "effect \<Rightarrow> bool" where
  "is_exec (Exec c) = True"
| "is_exec _ = False"

fun is_youtube :: "effect \<Rightarrow> bool" where
  "is_youtube (YoutubeUpload t d ts v) = True"
| "is_youtube _ = False"

fun is_soundcloud :: "effect \<Rightarrow> bool" where
  "is_soundcloud (SoundcloudUpload t d ts a im) = True"
| "is_soundcloud _ = False"

fun is_fetch :: "effect \<Rightarrow> bool" where
  "is_fetch (Fetch u) = True"
| "is_fetch _ = False"

fun is_write :: "effect \<Rightarrow> bool" where
  "is_write (WriteFile p b) = True"
| "is_write _ = False"

text \<open>The calls to the chat platform about the request itself; all others touch the
  network or the file system.\<close>

fun is_chat :: "effect \<Rightarrow> bool" where
  "is_chat DeferReply = True"
| "is_chat (Respond m e) = True"
| "is_chat (ChannelSend m) = True"
| "is_chat DeletePrompt = True"
| "is_chat (FollowUp m e) = True"
| "is_chat _ = False"

text \<open>Neither a call of the encoder nor a call of YouTube.\<close>

definition quiet :: "effect \<Rightarrow> bool" where
  "quiet e = (\<not> is_exec e \<and> \<not> is_youtube e)"

subsection \<open>A run to evaluate\<close>

definition song :: attachment where
  "song = \<lparr>name = str ''song.mp3'', url = str ''https://cdn/a''\<rparr>"

definition cover :: attachment where
  "cover = \<lparr>name = str ''cover.png'', url = str ''https://cdn/b''\<rparr>"

definition alice :: interaction where
  "alice = \<lparr>user_id = str ''42'', channel_sendable = True, opt_audio = Some song,
            opt_image = Some cover, opt_title = Some (str ''Test Song''),
            opt_description = None, opt_tags = Some (str ''a, b'')\<rparr>"

definition both :: config where
  "both = \<lparr>canUseYoutube = True, canUseSoundcloud = True, feed = str ''feed'',
           siteUrl = (\<lambda>p. str ''https://site'' @ p)\<rparr>"

definition yes_click :: click where
  "yes_click = \<lparr>clicker = str ''42'', customId = str ''Y'', delete_ok = True\<rparr>"

definition no_click :: click where
  "no_click = \<lparr>clicker = str ''42'', customId = str ''N'', delete_ok = True\<rparr>"

text \<open>Everything succeeds; the hash is a stand-in that only has to be a function.\<close>

definition fine :: world where
  "fine = \<lparr>sha256hex = (\<lambda>s. str ''h'' @ drop 12 s), extname = (\<lambda>p. drop (length p - 4) p),
           stringify = (\<lambda>d. video_id d @ str '':'' @ (case uploadStatus d of None \<Rightarrow> str ''null'' | Some st \<Rightarrow> st)), ids_yes = str ''Y'', ids_no = str ''N'',
           events = [Click yes_click, Deleted 0], mkdir_io = Resolves (),
           fetch_audio = Resolves (200, [1, 2]), write_audio = Resolves (),
           fetch_image = Resolves (200, [3]), write_image = Resolves (),
           exec_io = \<lparr>err = None, stdout = [], stderr = []\<rparr>,
           youtube_io = Resolves \<lparr>video_id = str ''v1'', uploadStatus = Some (str ''uploaded'')\<rparr>,
           soundcloud_io = Resolves (str ''https://soundcloud.com/t''),
           feed_io = FeedSent, open_audio = Resolves (), open_image = Resolves (),
           hmac_io = Resolves ()\<rparr>"

text \<open>The same requester with another song and another cover.\<close>

definition alice_again :: interaction where
  "alice_again = alice\<lparr>opt_audio := Some \<lparr>name = str ''other.wav'', url = str ''https://cdn/c''\<rparr>,
                        opt_image := Some \<lparr>name = str ''other.jpg'', url = str ''https://cdn/d''\<rparr>\<rparr>"

definition alice_request :: request where
  "alice_request = \<lparr>req_audio = song, req_image = cover, req_title = str ''Test Song'',
     req_description = [], req_tagsString = str ''a, b'', req_tags = [str ''a'', str ''b'']\<rparr>"

definition stranger_click :: click where
  "stranger_click = \<lparr>clicker = str ''7'', customId = str ''Y'', delete_ok = True\<rparr>"

text \<open>Runs in which one collaborator fails.\<close>

definition encoder_fails :: world where
  "encoder_fails = fine\<lparr>exec_io := \<lparr>err = Some (str ''exit 1''), stdout = [], stderr = str ''boom''\<rparr>\<rparr>"

definition soundcloud_throws :: world where
  "soundcloud_throws = fine\<lparr>soundcloud_io := Rejects (str ''503'')\<rparr>"

definition youtube_rejects :: world where
  "youtube_rejects = fine\<lparr>youtube_io :=
     Resolves \<lparr>video_id = str ''v1'', uploadStatus = Some (str ''rejected'')\<rparr>\<rparr>"

definition audio_not_found :: world where
  "audio_not_found = fine\<lparr>fetch_audio := Resolves (404, [9])\<rparr>"

definition image_unreachable :: world where
  "image_unreachable = fine\<lparr>fetch_image := Rejects (str ''ECONNRESET'')\<rparr>"

definition audio_unreachable :: world where
  "audio_unreachable = fine\<lparr>fetch_audio := Rejects (str ''ECONNRESET'')\<rparr>"

section \<open>Properties\<close>

subsection \<open>The tag list\<close>

lemma split_js_not_Nil: "split_js sep s \<noteq> []"
  by (induction s) (auto split: list.splits)

lemma join_js_Cons: "ys \<noteq> [] \<Longrightarrow> join_js sep (x # ys) = x @ sep @ join_js sep ys"
  by (cases ys) simp_all

lemma join_split_js: "join_js [sep] (split_js sep s) = s"
proof (induction s)
  case Nil
  show ?case by simp
next
  case (Cons c cs)
  show ?case
  proof (cases "c = sep")
    case True
    with Cons show ?thesis by (simp add: join_js_Cons split_js_not_Nil)
  next
    case False
    obtain p ps where ps: "split_js sep cs = p # ps"
      using split_js_not_Nil [of sep cs] by (cases "split_js sep cs") auto
    with Cons False show ?thesis by (cases ps) simp_all
  qed
qed

lemma split_js_no_sep: "p \<in> set (split_js sep s) \<Longrightarrow> sep \<notin> set p"
  by (induction s arbitrary: p) (auto split: if_splits list.splits)

lemma length_split_js: "length (split_js sep s) = Suc (count_list s sep)"
  by (induction s) (auto split: list.splits simp: split_js_not_Nil)

lemma trim_js_decompose:
  "p = takeWhile isWhiteSpace p @ trim_js p
         @ rev (takeWhile isWhiteSpace (rev (dropWhile isWhiteSpace p)))"
proof -
  let ?q = "dropWhile isWhiteSpace p"
  have "rev ?q = takeWhile isWhiteSpace (rev ?q) @ dropWhile isWhiteSpace (rev ?q)"
    by simp
  then have "?q = rev (dropWhile isWhiteSpace (rev ?q)) @ rev (takeWhile isWhiteSpace (rev ?q))"
    by (metis rev_append rev_rev_ident)
  then have "?q = trim_js p @ rev (takeWhile isWhiteSpace (rev ?q))"
    by (simp add: trim_js_def)
  moreover have "p = takeWhile isWhiteSpace p @ ?q" by simp
  ultimately show ?thesis by metis
qed

lemma trim_js_ends:
  "trim_js p = [] \<or> (\<not> isWhiteSpace (hd (trim_js p)) \<and> \<not> isWhiteSpace (last (trim_js p)))"
proof (cases "trim_js p = []")
  case True
  then show ?thesis by simp
next
  case False
  define q where "q = dropWhile isWhiteSpace p"
  define r where "r = dropWhile isWhiteSpace (rev q)"
  have t: "trim_js p = rev r" by (simp add: trim_js_def q_def r_def)
  with False have r: "r \<noteq> []" by simp
  then have "\<not> isWhiteSpace (hd r)" unfolding r_def by (rule hd_dropWhile)
  then have l: "\<not> isWhiteSpace (last (trim_js p))"
    using r by (simp add: t last_rev)
  have q: "q \<noteq> []" using r by (auto simp: r_def)
  then have hq: "\<not> isWhiteSpace (hd q)" unfolding q_def by (rule hd_dropWhile)
  have "rev q \<noteq> []" using q by simp
  then have "last (rev q) \<in> set (rev q)" by (rule last_in_set)
  moreover have "\<not> isWhiteSpace (last (rev q))" using q hq by (simp add: last_rev)
  ultimately have "last r = last (rev q)" unfolding r_def by (rule dropWhile_last)
  then have "hd (trim_js p) = hd q" using r q by (simp add: t hd_rev last_rev)
  with hq l show ?thesis by simp
qed

lemma takeWhile_all: "list_all P (takeWhile P xs)"
  by (induction xs) auto

lemma split_js_without_sep: "sep \<notin> set s \<Longrightarrow> split_js sep s = [s]"
  by (induction s) auto

lemma comma_not_white: "\<not> isWhiteSpace comma"
  by (simp add: isWhiteSpace_def comma_def)

lemma parse_tags_blank:
  "s \<noteq> [] \<Longrightarrow> list_all isWhiteSpace s \<Longrightarrow> parse_tags s = [[]]"
proof -
  assume s: "s \<noteq> []" and w: "list_all isWhiteSpace s"
  from w have "comma \<notin> set s"
    using comma_not_white by (auto simp: list_all_iff)
  then have "split_js comma s = [s]" by (rule split_js_without_sep)
  moreover from w have "trim_js s = []"
    by (auto simp: trim_js_def list_all_iff dest: set_dropWhileD)
  ultimately show ?thesis using s by (simp add: parse_tags_def)
qed
text \<open>
  C4, as the code has it. The empty field gives the empty list. A field that is not empty
  gives one tag for each comma-separated entry, in the order of the field, each with the
  white space around it removed and nothing else. No entry is dropped: an entry that is
  empty after trimming stays in the list as the empty tag, so a field of white space
  alone gives the list of one empty tag; removing the empty tags gives the list of the
  specification.
\<close>

theorem parse_tags_keeps_every_entry:
  "parse_tags [] = []
   \<and> (s \<noteq> [] \<longrightarrow> parse_tags s = map trim_js (split_js comma s))
   \<and> (s \<noteq> [] \<and> list_all isWhiteSpace s \<longrightarrow> parse_tags s = [[]])
   \<and> join_js [comma] (split_js comma s) = s
   \<and> (\<forall>p \<in> set (split_js comma s). comma \<notin> set p)
   \<and> length (split_js comma s) = Suc (count_list s comma)
   \<and> (\<forall>p. \<exists>pre post. p = pre @ trim_js p @ post
          \<and> list_all isWhiteSpace pre \<and> list_all isWhiteSpace post)
   \<and> (\<forall>p. trim_js p = []
          \<or> (\<not> isWhiteSpace (hd (trim_js p)) \<and> \<not> isWhiteSpace (last (trim_js p))))
   \<and> filter (\<lambda>t. t \<noteq> []) (parse_tags s) = spec_parse_tags s"
proof -
  have "\<exists>pre post. p = pre @ trim_js p @ post
          \<and> list_all isWhiteSpace pre \<and> list_all isWhiteSpace post" for p
    using trim_js_decompose [of p] takeWhile_all [of isWhiteSpace p]
      takeWhile_all [of isWhiteSpace "rev (dropWhile isWhiteSpace p)"]
    by (metis list_all_rev)
  moreover have "filter (\<lambda>t. t \<noteq> []) (parse_tags s) = spec_parse_tags s"
    by (cases s) (simp_all add: parse_tags_def spec_parse_tags_def trim_js_def)
  moreover have "s \<noteq> [] \<and> list_all isWhiteSpace s \<longrightarrow> parse_tags s = [[]]"
    by (simp add: parse_tags_blank)
  ultimately show ?thesis
    using trim_js_ends
    by (simp add: parse_tags_def join_split_js split_js_no_sep length_split_js)
qed

theorem parse_tags_keeps_every_entry_witness:
  "str ''a, b'' \<noteq> []
   \<and> parse_tags (str ''a, b'') = [str ''a'', str ''b'']
   \<and> join_js [comma] (split_js comma (str ''a, b'')) = str ''a, b''
   \<and> spec_parse_tags (str ''a, b'') = [str ''a'', str ''b'']"
  using parse_tags_keeps_every_entry [of "str ''a, b''"]
  by (simp add: parse_tags_def spec_parse_tags_def str_def comma_def trim_js_def isWhiteSpace_def)

text \<open>
  C4 as stated fails: a field of two spaces is not empty, so it is split and trimmed into
  one empty tag, and the empty entry between two commas is kept.
\<close>

theorem whitespace_only_tags_counterexample:
  "list_all isWhiteSpace (str ''  '')
   \<and> parse_tags (str ''  '') = [[]]
   \<and> parse_tags (str ''  '') \<noteq> []
   \<and> parse_tags (str ''a,,b'') = [str ''a'', [], str ''b'']"
  by (simp add: parse_tags_def str_def comma_def trim_js_def isWhiteSpace_def)

subsection \<open>The confirmation gate\<close>










text \<open>
  A collector has collected nothing, or has timed out with nothing collected, or has
  collected a click; the last kind never resolves to \<open>TimedOut\<close>.
\<close>

lemma deliver_kinds:
  assumes "(timeout c \<and> \<not> ended c \<and> resolved c = [] \<and> trace c = [] \<and> pending c = [])
           \<or> c = timed_out
           \<or> (\<not> timeout c \<and> TimedOut \<notin> set (resolved c) \<and> TimedOut \<notin> fst ` set (pending c))"
  shows "(timeout (deliver u y n c ev) \<and> \<not> ended (deliver u y n c ev)
            \<and> resolved (deliver u y n c ev) = [] \<and> trace (deliver u y n c ev) = []
            \<and> pending (deliver u y n c ev) = [])
         \<or> deliver u y n c ev = timed_out
         \<or> (\<not> timeout (deliver u y n c ev) \<and> TimedOut \<notin> set (resolved (deliver u y n c ev))
            \<and> TimedOut \<notin> fst ` set (pending (deliver u y n c ev)))"
  using assms
proof (elim disjE)
  assume "timeout c \<and> \<not> ended c \<and> resolved c = [] \<and> trace c = [] \<and> pending c = []"
  then show ?thesis
    by (cases ev)
       (auto simp: deliver_def on_collect_def stop_def on_end_def timed_out_def Let_def)
next
  assume "c = timed_out"
  then show ?thesis
    by (cases ev) (auto simp: deliver_def stop_def timed_out_def)
next
  assume c: "\<not> timeout c \<and> TimedOut \<notin> set (resolved c) \<and> TimedOut \<notin> fst ` set (pending c)"
  show ?thesis
  proof (cases ev)
    case (Click i)
    with c show ?thesis by (auto simp: deliver_def on_collect_def Let_def)
  next
    case (Deleted k)
    show ?thesis
    proof (cases "k < length (pending c)")
      case False
      with c Deleted show ?thesis by (simp add: deliver_def)
    next
      case True
      then have "pending c ! k \<in> set (pending c)" by simp
      with c have h: "fst (pending c ! k) \<noteq> TimedOut" by force
      have "set (take k (pending c)) \<subseteq> set (pending c)"
        and "set (drop (Suc k) (pending c)) \<subseteq> set (pending c)"
        by (rule set_take_subset, rule set_drop_subset)
      with c have p: "TimedOut \<notin> fst ` set (take k (pending c))"
        "TimedOut \<notin> fst ` set (drop (Suc k) (pending c))"
        by blast+
      from h have h': "TimedOut \<noteq> fst (pending c ! k)" by simp
      from c h' p True Deleted show ?thesis
        by (simp add: deliver_def after_delete_def stop_def on_end_def Let_def image_Un)
    qed
  next
    case TimeUp
    with c show ?thesis by (auto simp: deliver_def stop_def on_end_def)
  qed
qed

lemma foldl_kinds:
  "(timeout c \<and> \<not> ended c \<and> resolved c = [] \<and> trace c = [] \<and> pending c = [])
     \<or> c = timed_out
     \<or> (\<not> timeout c \<and> TimedOut \<notin> set (resolved c) \<and> TimedOut \<notin> fst ` set (pending c)) \<Longrightarrow>
   (timeout (foldl (deliver u y n) c evs) \<and> \<not> ended (foldl (deliver u y n) c evs)
      \<and> resolved (foldl (deliver u y n) c evs) = [] \<and> trace (foldl (deliver u y n) c evs) = []
      \<and> pending (foldl (deliver u y n) c evs) = [])
     \<or> foldl (deliver u y n) c evs = timed_out
     \<or> (\<not> timeout (foldl (deliver u y n) c evs)
        \<and> TimedOut \<notin> set (resolved (foldl (deliver u y n) c evs))
        \<and> TimedOut \<notin> fst ` set (pending (foldl (deliver u y n) c evs)))"
proof (induction evs arbitrary: c)
  case Nil
  then show ?case by simp
next
  case (Cons ev evs)
  from Cons.IH [OF deliver_kinds [OF Cons.prems, of u y n ev]]
  show ?case by simp
qed

lemma confirmation_kinds:
  "confirmation u y n evs = timed_out
   \<or> TimedOut \<notin> set (resolved (confirmation u y n evs))"
proof -
  let ?c = "foldl (deliver u y n) new_collector evs"
  have "(timeout ?c \<and> \<not> ended ?c \<and> resolved ?c = [] \<and> trace ?c = [] \<and> pending ?c = [])
     \<or> ?c = timed_out
     \<or> (\<not> timeout ?c \<and> TimedOut \<notin> set (resolved ?c) \<and> TimedOut \<notin> fst ` set (pending ?c))"
    by (rule foldl_kinds) (simp add: new_collector_def)
  then show ?thesis
  proof (elim disjE)
    assume "timeout ?c \<and> \<not> ended ?c \<and> resolved ?c = [] \<and> trace ?c = [] \<and> pending ?c = []"
    then have "stop ?c = timed_out"
      by (simp add: stop_def on_end_def timed_out_def)
    then show ?thesis by (simp add: confirmation_def)
  next
    assume "?c = timed_out"
    then have "stop ?c = timed_out" by (simp add: stop_def timed_out_def)
    then show ?thesis by (simp add: confirmation_def)
  next
    assume "\<not> timeout ?c \<and> TimedOut \<notin> set (resolved ?c) \<and> TimedOut \<notin> fst ` set (pending ?c)"
    then have "TimedOut \<notin> set (resolved (stop ?c))"
      by (simp add: stop_def on_end_def)
    then show ?thesis by (simp add: confirmation_def)
  qed
qed

lemma confirmation_timed_out:
  "settled (confirmation u y n evs) = Some TimedOut \<Longrightarrow> confirmation u y n evs = timed_out"
  using confirmation_kinds [of u y n evs]
  by (auto simp: settled_def split: list.splits)










lemmas gate_eval = confirmation_def deliver_def on_collect_def after_delete_def stop_def
  on_end_def new_collector_def settled_def selects_def acting_def idle_def acts_def
  one_at_a_time_def yes_click_def no_click_def stranger_click_def Let_def










lemma trace_chat:
  "list_all is_chat (trace c) \<Longrightarrow> list_all is_chat (trace (deliver u y n c ev))"
  by (cases ev)
     (auto simp: deliver_def on_collect_def after_delete_def stop_def on_end_def Let_def)

lemma trace_chat_foldl:
  "list_all is_chat (trace c) \<Longrightarrow> list_all is_chat (trace (foldl (deliver u y n) c evs))"
  by (induction evs arbitrary: c) (simp_all add: trace_chat)

lemma trace_confirmation_chat: "list_all is_chat (trace (confirmation u y n evs))"
  using trace_chat_foldl [of new_collector u y n evs]
  by (auto simp: confirmation_def stop_def on_end_def new_collector_def)












subsection \<open>The run\<close>

lemma run_settled:
  "channel_sendable i \<Longrightarrow> validate i = Inr r \<Longrightarrow>
   settled (confirmation (user_id i) (ids_yes w) (ids_no w) (events w)) = Some d \<Longrightarrow>
   run cfg w i =
     ([DeferReply, ChannelSend (prompt r)]
        @ trace (confirmation (user_id i) (ids_yes w) (ids_no w) (events w))
        @ fst (after_confirmation cfg w i r (promise_value d)),
      snd (after_confirmation cfg w i r (promise_value d)))"
  by (simp add: run_def Let_def split: prod.splits)

lemma after_confirmation_False:
  "after_confirmation cfg w i r False = ([Respond (str ''Cancelled'') True], Returned)"
  by (simp add: after_confirmation_def)

lemma after_confirmation_True:
  "after_confirmation cfg w i r True =
     (case snd (download w r) of
        Rejects e \<Rightarrow> (fst (download w r), Threw e)
      | Resolves _ \<Rightarrow>
          (fst (download w r) @ fst (transcode cfg w i r)
             @ fst (callback cfg w i r (snd (transcode cfg w i r))),
           case snd (callback cfg w i r (snd (transcode cfg w i r))) of
             Rejects e \<Rightarrow> CallbackThrew e
           | Resolves _ \<Rightarrow> Returned))"
  by (cases "download w r"; cases "transcode cfg w i r";
      cases "callback cfg w i r (snd (transcode cfg w i r))")
     (auto simp: after_confirmation_def split: io.splits)

lemma download_audio_rejected:
  "mkdir_io w = Resolves () \<Longrightarrow> fetch_audio w = Rejects e \<Longrightarrow>
     download w r = ([Mkdir (str ''.tmp''), Fetch (url (req_audio r))], Rejects e)"
  by (simp add: download_def await_def call_def)

lemma download_image_rejected:
  "mkdir_io w = Resolves () \<Longrightarrow> fetch_audio w = Resolves (st, body) \<Longrightarrow>
   write_audio w = Resolves () \<Longrightarrow> fetch_image w = Rejects e \<Longrightarrow>
     download w r =
       ([Mkdir (str ''.tmp''), Fetch (url (req_audio r)),
         WriteFile (audioPath w (req_audio r)) body, Fetch (url (req_image r))], Rejects e)"
  by (simp add: download_def await_def call_def)

lemma download_any_status:
  "mkdir_io w = Resolves () \<Longrightarrow> fetch_audio w = Resolves (st, body) \<Longrightarrow>
   write_audio w = Resolves () \<Longrightarrow> fetch_image w = Resolves (st', body') \<Longrightarrow>
   write_image w = Resolves () \<Longrightarrow>
     download w r =
       ([Mkdir (str ''.tmp''), Fetch (url (req_audio r)),
         WriteFile (audioPath w (req_audio r)) body, Fetch (url (req_image r)),
         WriteFile (imagePath w (req_image r)) body'], Resolves ())"
  by (simp add: download_def await_def call_def)

lemma list_all_await:
  "list_all P (fst m) \<Longrightarrow> (\<And>x. list_all P (fst (k x))) \<Longrightarrow> list_all P (fst (await m k))"
proof -
  assume m: "list_all P (fst m)" and k: "\<And>x. list_all P (fst (k x))"
  obtain es r where mr: "m = (es, r)" by (cases m)
  show ?thesis
  proof (cases r)
    case (Rejects e)
    with m mr show ?thesis by (simp add: await_def)
  next
    case (Resolves x)
    obtain es' r' where kr: "k x = (es', r')" by (cases "k x")
    with k [of x] have "list_all P es'" by simp
    with m mr Resolves kr show ?thesis by (simp add: await_def)
  qed
qed

lemma chat_quiet: "is_chat e \<Longrightarrow> quiet e"
  by (cases e) (simp_all add: quiet_def)

lemma quiet_confirmation: "list_all quiet (trace (confirmation u y n evs))"
  using trace_confirmation_chat [of u y n evs] by (simp add: list_all_iff chat_quiet)

lemma quiet_download: "list_all quiet (fst (download w r))"
  unfolding download_def
  by (intro list_all_await) (simp_all add: call_def quiet_def)

lemma quiet_feed: "list_all quiet (feed_notification cfg w i t u)"
  by (simp add: feed_notification_def quiet_def split: feed_result.splits)

lemma upload_without_youtube:
  "\<not> canUseYoutube cfg \<Longrightarrow>
     uploadToYoutubeAndSoundcloud cfg w i a b v t d tags =
       await (upload_soundcloud cfg w a b t d tags)
         (\<lambda>sc. (feed_notification cfg w i t \<lparr>youtubeUrl = placeholder, soundcloudUrl = sc\<rparr>,
                 Resolves (Some \<lparr>youtubeUrl = placeholder, soundcloudUrl = sc\<rparr>)))"
  by (simp add: uploadToYoutubeAndSoundcloud_def upload_youtube_def await_def Let_def)

lemma quiet_upload:
  "\<not> canUseYoutube cfg \<Longrightarrow>
     list_all quiet (fst (uploadToYoutubeAndSoundcloud cfg w i a b v t d tags))"
  unfolding upload_without_youtube
  by (intro list_all_await) (simp_all add: upload_soundcloud_def call_def quiet_def quiet_feed)

lemma quiet_delete:
  "\<not> canUseYoutube cfg \<Longrightarrow> list_all quiet (deleteTemporaryFiles cfg v a b)"
  by (simp add: deleteTemporaryFiles_def quiet_def)

lemma quiet_submit: "list_all quiet (fst (submit cfg w r u))"
  unfolding submit_def
  by (intro list_all_await) (simp_all add: call_def quiet_def split: io.splits)

lemma quiet_callback:
  assumes "\<not> canUseYoutube cfg"
  shows "list_all quiet (fst (callback cfg w i r x))"
proof (cases "err x")
  case (Some e)
  then show ?thesis by (simp add: callback_def quiet_def)
next
  case None
  let ?up = "uploadToYoutubeAndSoundcloud cfg w i (audioPath w (req_audio r))
      (imagePath w (req_image r)) (videoPath i) (req_title r) (req_description r) (req_tags r)"
  obtain es res where up: "?up = (es, res)" by (cases ?up)
  with quiet_upload [OF assms, of w i "audioPath w (req_audio r)" "imagePath w (req_image r)"
      "videoPath i" "req_title r" "req_description r" "req_tags r"]
  have es: "list_all quiet es" by simp
  show ?thesis
  proof (cases res)
    case (Rejects e)
    with None up es show ?thesis by (simp add: callback_def quiet_def)
  next
    case (Resolves res')
    show ?thesis
    proof (cases res')
      case None': None
      with None up es Resolves show ?thesis
        by (simp add: callback_def quiet_delete [OF assms])
    next
      case (Some u)
      have "list_all quiet (fst (await (es, Resolves ()) (\<lambda>_.
               await (submit cfg w r u) (\<lambda>_.
                 (deleteTemporaryFiles cfg (videoPath i) (audioPath w (req_audio r))
                    (imagePath w (req_image r)), Resolves ())))))"
        by (intro list_all_await) (simp_all add: es quiet_submit quiet_delete [OF assms])
      with None up Resolves Some show ?thesis by (simp add: callback_def)
    qed
  qed
qed

lemma quiet_after:
  assumes "\<not> canUseYoutube cfg"
  shows "list_all quiet (fst (after_confirmation cfg w i r b))"
proof (cases b)
  case False
  then show ?thesis by (simp add: after_confirmation_False quiet_def)
next
  case True
  then show ?thesis
    using assms quiet_download [of w r] quiet_callback [OF assms, of w i r fakeExec]
    by (simp add: after_confirmation_True transcode_def split: io.splits)
qed

lemma quiet_run:
  assumes "\<not> canUseYoutube cfg"
  shows "list_all quiet (fst (run cfg w i))"
proof (cases "channel_sendable i")
  case False
  then show ?thesis by (simp add: run_def quiet_def)
next
  case True
  show ?thesis
  proof (cases "validate i")
    case (Inl msg)
    with True show ?thesis by (simp add: run_def quiet_def)
  next
    case (Inr r)
    let ?c = "confirmation (user_id i) (ids_yes w) (ids_no w) (events w)"
    show ?thesis
    proof (cases "settled ?c")
      case None
      with True Inr show ?thesis
        using quiet_confirmation [of "user_id i" "ids_yes w" "ids_no w" "events w"]
        by (simp add: run_def Let_def quiet_def)
    next
      case (Some d)
      show ?thesis
        using quiet_confirmation [of "user_id i" "ids_yes w" "ids_no w" "events w"]
          quiet_after [OF assms, of w i r "promise_value d"]
        by (simp add: run_settled [OF True Inr Some] quiet_def)
    qed
  qed
qed

lemmas request_eval = validate_def alice_def alice_request_def song_def cover_def
  parse_tags_def comma_def trim_js_def isWhiteSpace_def endsWith_def

lemmas stage_eval = after_confirmation_def download_def call_def await_def transcode_def
  callback_def uploadToYoutubeAndSoundcloud_def upload_youtube_def upload_soundcloud_def
  feed_notification_def submit_def deleteTemporaryFiles_def fakeExec_def Let_def

lemmas path_eval = audioPath_def imagePath_def videoPath_def

lemmas text_eval = video_failed_def song_failed_def processing_failed_def uploaded_def
  feed_message_def formData_def placeholder_def youtubeDescription_def
  soundcloudDescription_def array_truthy_def nl_def fence_def

lemma validate_alice: "validate alice = Inr alice_request"
  by (simp add: request_eval str_def)

lemma run_alice:
  "run cfg w alice =
     (case settled (confirmation (str ''42'') (ids_yes w) (ids_no w) (events w)) of
        None \<Rightarrow> ([DeferReply, ChannelSend (prompt alice_request)]
                  @ trace (confirmation (str ''42'') (ids_yes w) (ids_no w) (events w)), NeverSettles)
      | Some d \<Rightarrow>
          ([DeferReply, ChannelSend (prompt alice_request)]
             @ trace (confirmation (str ''42'') (ids_yes w) (ids_no w) (events w))
             @ fst (after_confirmation cfg w alice alice_request (promise_value d)),
           snd (after_confirmation cfg w alice alice_request (promise_value d))))"
  by (simp add: run_def validate_alice Let_def split: option.splits prod.splits)
     (simp add: alice_def)

text \<open>
  C8. When the gate times out, the run answers \<^verbatim>\<open>Cancelled\<close> and returns. All it has
  done is talk to the chat platform: the deferred reply, the prompt, the follow-up of the
  timeout and the answer; no directory, no fetch, no file, no encoder, no upload and no
  deletion. The run sees only the value \<^verbatim>\<open>false\<close> of the promise, which is also what a
  decline gives it, so it goes on in the same way after both.
\<close>

theorem timed_out_run_cancels:
  assumes "channel_sendable i" and "validate i = Inr r"
    and "settled (confirmation (user_id i) (ids_yes w) (ids_no w) (events w)) = Some TimedOut"
  shows "run cfg w i =
           ([DeferReply, ChannelSend (prompt r), FollowUp too_long True,
             Respond (str ''Cancelled'') True], Returned)
         \<and> list_all is_chat (fst (run cfg w i))
         \<and> after_confirmation cfg w i r (promise_value TimedOut) =
             after_confirmation cfg w i r (promise_value Declined)"
proof -
  have "confirmation (user_id i) (ids_yes w) (ids_no w) (events w) = timed_out"
    using assms(3) by (rule confirmation_timed_out)
  then have "trace (confirmation (user_id i) (ids_yes w) (ids_no w) (events w)) =
      [FollowUp too_long True]"
    by (simp add: timed_out_def)
  then show ?thesis
    by (simp add: run_settled [OF assms] after_confirmation_False)
qed

text \<open>A stranger clicks Yes and the requester does nothing.\<close>

theorem timed_out_run_cancels_witness:
  "channel_sendable alice \<and> validate alice = Inr alice_request
   \<and> settled (confirmation (user_id alice) (ids_yes (fine\<lparr>events := [Click stranger_click]\<rparr>))
        (ids_no (fine\<lparr>events := [Click stranger_click]\<rparr>))
        (events (fine\<lparr>events := [Click stranger_click]\<rparr>))) = Some TimedOut
   \<and> run both (fine\<lparr>events := [Click stranger_click]\<rparr>) alice =
        ([DeferReply, ChannelSend (prompt alice_request), FollowUp too_long True,
          Respond (str ''Cancelled'') True], Returned)"
  using timed_out_run_cancels [of alice alice_request "fine\<lparr>events := [Click stranger_click]\<rparr>" both]
  by (simp add: validate_alice) (simp add: alice_def fine_def gate_eval str_def)

subsection \<open>Publishing\<close>

lemma upload_youtube_failed:
  "canUseYoutube cfg \<Longrightarrow> youtube_io w = Resolves d \<Longrightarrow>
   uploadStatus d \<noteq> Some (str ''uploaded'') \<Longrightarrow>
     uploadToYoutubeAndSoundcloud cfg w i a b v t ds tags =
       ([YoutubeUpload t (youtubeDescription ds tags) tags v,
         Respond (video_failed (stringify w d)) True], Resolves None)"
  by (simp add: uploadToYoutubeAndSoundcloud_def upload_youtube_def await_def call_def)

lemma upload_youtube_threw:
  "canUseYoutube cfg \<Longrightarrow> youtube_io w = Rejects e \<Longrightarrow>
     uploadToYoutubeAndSoundcloud cfg w i a b v t ds tags =
       ([YoutubeUpload t (youtubeDescription ds tags) tags v], Rejects e)"
  by (simp add: uploadToYoutubeAndSoundcloud_def upload_youtube_def await_def call_def)

text \<open>
  C6. With YouTube enabled, when the upload returns a status other than
  \<^verbatim>\<open>uploaded\<close>, the publish stage makes two calls and stops: the upload to YouTube and
  the answer to the requester, which is the line
  \<^verbatim>\<open>An error occurred while uploading the video\<close> followed by the serialised status
  payload between two fences. SoundCloud is not called, the feed is not notified, and the
  callback goes on to delete the temporary files only. When the upload throws instead,
  the publish stage stops at that call, and the callback answers with the text of the
  error in the place of the payload.
\<close>

theorem youtube_failure_stops_publishing:
  assumes "canUseYoutube cfg"
  shows "(youtube_io w = Resolves d \<and> uploadStatus d \<noteq> Some (str ''uploaded'') \<longrightarrow>
            uploadToYoutubeAndSoundcloud cfg w i a b v t ds tags =
              ([YoutubeUpload t (youtubeDescription ds tags) tags v,
                Respond (str ''An error occurred while uploading the video''
                           @ [0x0A, 0x60, 0x60, 0x60, 0x0A] @ stringify w d
                           @ [0x0A, 0x60, 0x60, 0x60]) True], Resolves None)
            \<and> \<not> list_ex is_soundcloud (fst (uploadToYoutubeAndSoundcloud cfg w i a b v t ds tags))
            \<and> (err x = None \<longrightarrow>
                 callback cfg w i r x =
                   ([YoutubeUpload (req_title r)
                       (youtubeDescription (req_description r) (req_tags r)) (req_tags r)
                       (videoPath i),
                     Respond (str ''An error occurred while uploading the video''
                                @ [0x0A, 0x60, 0x60, 0x60, 0x0A] @ stringify w d
                                @ [0x0A, 0x60, 0x60, 0x60]) True,
                     Unlink (videoPath i), Unlink (audioPath w (req_audio r)),
                     Unlink (imagePath w (req_image r))], Resolves ())))
         \<and> (youtube_io w = Rejects e \<longrightarrow>
            uploadToYoutubeAndSoundcloud cfg w i a b v t ds tags =
              ([YoutubeUpload t (youtubeDescription ds tags) tags v], Rejects e)
            \<and> (err x = None \<longrightarrow>
                 callback cfg w i r x =
                   ([YoutubeUpload (req_title r)
                       (youtubeDescription (req_description r) (req_tags r)) (req_tags r)
                       (videoPath i),
                     Respond (str ''An error occurred while uploading the video''
                                @ [0x0A, 0x60, 0x60, 0x60, 0x0A] @ e
                                @ [0x0A, 0x60, 0x60, 0x60]) True], Resolves ())))"
  using assms
  by (simp add: upload_youtube_failed upload_youtube_threw callback_def
        deleteTemporaryFiles_def video_failed_def nl_def fence_def)

theorem youtube_failure_stops_publishing_witness:
  "canUseYoutube both
   \<and> youtube_io youtube_rejects =
       Resolves \<lparr>video_id = str ''v1'', uploadStatus = Some (str ''rejected'')\<rparr>
   \<and> uploadStatus \<lparr>video_id = str ''v1'', uploadStatus = Some (str ''rejected'')\<rparr>
       \<noteq> Some (str ''uploaded'')
   \<and> err (exec_io youtube_rejects) = None
   \<and> uploadToYoutubeAndSoundcloud both youtube_rejects alice (str ''a'') (str ''b'') (str ''v'')
        (str ''t'') [] [] =
        ([YoutubeUpload (str ''t'') ([0x0A, 0x0A] @ str ''Tags: N/A'') [] (str ''v''),
          Respond (str ''An error occurred while uploading the video''
                     @ [0x0A, 0x60, 0x60, 0x60, 0x0A] @ str ''v1:rejected''
                     @ [0x0A, 0x60, 0x60, 0x60]) True], Resolves None)
   \<and> drop 9 (fst (run both youtube_rejects alice)) =
        [YoutubeUpload (str ''Test Song'') ([0x0A, 0x0A] @ str ''Tags: a, b'')
           [str ''a'', str ''b''] (str ''./.tmp/42.mp4''),
         Respond (str ''An error occurred while uploading the video''
                    @ [0x0A, 0x60, 0x60, 0x60, 0x0A] @ str ''v1:rejected''
                    @ [0x0A, 0x60, 0x60, 0x60]) True,
         Unlink (str ''./.tmp/42.mp4''), Unlink (str ''./.tmp/ha.mp3''),
         Unlink (str ''./.tmp/hb.png'')]
   \<and> youtube_io (fine\<lparr>youtube_io := Rejects (str ''quota'')\<rparr>) = Rejects (str ''quota'')
   \<and> uploadToYoutubeAndSoundcloud both (fine\<lparr>youtube_io := Rejects (str ''quota'')\<rparr>) alice
        (str ''a'') (str ''b'') (str ''v'') (str ''t'') [] [] =
        ([YoutubeUpload (str ''t'') ([0x0A, 0x0A] @ str ''Tags: N/A'') [] (str ''v'')],
         Rejects (str ''quota''))"
  using youtube_failure_stops_publishing [of both youtube_rejects
      "\<lparr>video_id = str ''v1'', uploadStatus = Some (str ''rejected'')\<rparr>"
      alice "str ''a''" "str ''b''" "str ''v''" "str ''t''" "[]" "[]" "exec_io youtube_rejects"
      alice_request "str ''quota''"]
    youtube_failure_stops_publishing [of both "fine\<lparr>youtube_io := Rejects (str ''quota'')\<rparr>"
      "\<lparr>video_id = str ''v1'', uploadStatus = Some (str ''rejected'')\<rparr>"
      alice "str ''a''" "str ''b''" "str ''v''" "str ''t''" "[]" "[]" "exec_io youtube_rejects"
      alice_request "str ''quota''"]
  by (simp add: run_alice)
     (simp add: both_def fine_def youtube_rejects_def gate_eval stage_eval path_eval text_eval
        alice_def alice_request_def song_def cover_def endsWith_def str_def)

lemma callback_without_youtube:
  assumes "\<not> canUseYoutube cfg"
  shows "callback cfg w i r \<lparr>err = None, stdout = [], stderr = []\<rparr> =
     (let ap = audioPath w (req_audio r);
          ip = imagePath w (req_image r);
          sc = (if canUseSoundcloud cfg
                then [SoundcloudUpload (req_title r)
                        (soundcloudDescription (req_description r) (req_tags r)) (req_tags r) ap ip]
                else []);
          msg = (\<lambda>link. str ''Uploaded by <@'' @ user_id i @ str ''>'' @ [0x0A]
                    @ str ''Title: '' @ req_title r @ [0x0A]
                    @ str ''YouTube: '' @ str ''https://example.com/'' @ [0x0A]
                    @ str ''SoundCloud: '' @ link);
          fd = (\<lambda>link. ChannelsFetch (feed cfg) #
                  (case feed_io w of
                     FeedFetchRejects e \<Rightarrow>
                       [ConsoleError (str ''Failed to send message to feed channel'') (Some e)]
                   | FeedNotSendable \<Rightarrow>
                       [ConsoleError
                          (str ''Failed to send message to feed channel: Channel is not sendable'')
                          None]
                   | FeedSendRejects e \<Rightarrow>
                       [FeedSend (msg link),
                        ConsoleError (str ''Failed to send message to feed channel'') (Some e)]
                   | FeedSent \<Rightarrow> [FeedSend (msg link)]));
          form = (\<lambda>link. [(str ''title'', Text (req_title r)),
                          (str ''soundcloudUrl'', Text link),
                          (str ''youtubeUrl'', Text (str ''https://example.com/'')),
                          (str ''track'', Blob ap (str ''track'' @ extname w ap)),
                          (str ''cover'', Blob ip (str ''cover'' @ extname w ip))]
                    @ (if req_tagsString r \<noteq> [] then [(str ''tags'', Text (req_tagsString r))]
                       else []))
      in case (if canUseSoundcloud cfg then soundcloud_io w
               else Resolves (str ''https://example.com/'')) of
           Rejects e \<Rightarrow>
             (sc @ [Respond (str ''An error occurred while uploading the video''
                              @ [0x0A, 0x60, 0x60, 0x60, 0x0A] @ e @ [0x0A, 0x60, 0x60, 0x60])
                      True],
              Resolves ())
         | Resolves link \<Rightarrow>
             (case open_audio w of
                Rejects e \<Rightarrow> (sc @ fd link @ [OpenAsBlob ap], Rejects e)
              | Resolves _ \<Rightarrow>
                  (case open_image w of
                     Rejects e \<Rightarrow> (sc @ fd link @ [OpenAsBlob ap, OpenAsBlob ip], Rejects e)
                   | Resolves _ \<Rightarrow>
                       (sc @ fd link
                          @ [OpenAsBlob ap, OpenAsBlob ip,
                             FetchHMAC (siteUrl cfg (str ''/api/sound'')) (form link),
                             (case hmac_io w of
                                Resolves _ \<Rightarrow>
                                  Respond (str ''Uploaded to YouTube: '' @ str ''https://example.com/''
                                             @ [0x0A] @ str ''Uploaded to SoundCloud: '' @ link)
                                    False
                              | Rejects e \<Rightarrow>
                                  Respond (str ''An error occurred while uploading the song''
                                             @ [0x0A, 0x60, 0x60, 0x60, 0x0A] @ e
                                             @ [0x0A, 0x60, 0x60, 0x60]) True),
                             Unlink ap, Unlink ip],
                        Resolves ()))))"
  using assms
  by (simp add: callback_def upload_without_youtube upload_soundcloud_def await_def call_def
        submit_def feed_notification_def deleteTemporaryFiles_def text_eval Let_def
        split: io.splits feed_result.splits)

text \<open>
  C7. With YouTube disabled no run calls the encoder or YouTube: the callback gets the
  answer of \<^verbatim>\<open>fakeExec\<close> at once, and a confirmed run whose downloads succeed is
  the downloads followed by the callback. The callback is the SoundCloud flow as it is
  with YouTube enabled: the upload to SoundCloud, the feed notification, the submission
  to the site and the cleanup of the audio and the image. Every place where it reports
  the video URL carries \<^verbatim>\<open>https://example.com/\<close>: the message to the feed, the
  field \<^verbatim>\<open>youtubeUrl\<close> of the form, and the answer to the requester.
\<close>

theorem youtube_disabled:
  assumes "\<not> canUseYoutube cfg"
  shows "\<not> list_ex is_exec (fst (run cfg w i))
   \<and> \<not> list_ex is_youtube (fst (run cfg w i))
   \<and> transcode cfg w i r = ([], \<lparr>err = None, stdout = [], stderr = []\<rparr>)
   \<and> (channel_sendable i \<and> validate i = Inr r
        \<and> settled (confirmation (user_id i) (ids_yes w) (ids_no w) (events w)) = Some Confirmed
        \<and> snd (download w r) = Resolves () \<longrightarrow>
        run cfg w i =
          ([DeferReply, ChannelSend (prompt r)]
             @ trace (confirmation (user_id i) (ids_yes w) (ids_no w) (events w))
             @ fst (download w r)
             @ fst (callback cfg w i r \<lparr>err = None, stdout = [], stderr = []\<rparr>),
           case snd (callback cfg w i r \<lparr>err = None, stdout = [], stderr = []\<rparr>) of
             Rejects e \<Rightarrow> CallbackThrew e
           | Resolves _ \<Rightarrow> Returned))
   \<and> upload_soundcloud cfg w a b t d tags =
       upload_soundcloud (cfg\<lparr>canUseYoutube := True\<rparr>) w a b t d tags
   \<and> callback cfg w i r \<lparr>err = None, stdout = [], stderr = []\<rparr> =
       (let ap = audioPath w (req_audio r);
            ip = imagePath w (req_image r);
            sc = (if canUseSoundcloud cfg
                  then [SoundcloudUpload (req_title r)
                          (soundcloudDescription (req_description r) (req_tags r)) (req_tags r) ap ip]
                  else []);
            msg = (\<lambda>link. str ''Uploaded by <@'' @ user_id i @ str ''>'' @ [0x0A]
                      @ str ''Title: '' @ req_title r @ [0x0A]
                      @ str ''YouTube: '' @ str ''https://example.com/'' @ [0x0A]
                      @ str ''SoundCloud: '' @ link);
            fd = (\<lambda>link. ChannelsFetch (feed cfg) #
                    (case feed_io w of
                       FeedFetchRejects e \<Rightarrow>
                         [ConsoleError (str ''Failed to send message to feed channel'') (Some e)]
                     | FeedNotSendable \<Rightarrow>
                         [ConsoleError
                            (str ''Failed to send message to feed channel: Channel is not sendable'')
                            None]
                     | FeedSendRejects e \<Rightarrow>
                         [FeedSend (msg link),
                          ConsoleError (str ''Failed to send message to feed channel'') (Some e)]
                     | FeedSent \<Rightarrow> [FeedSend (msg link)]));
            form = (\<lambda>link. [(str ''title'', Text (req_title r)),
                            (str ''soundcloudUrl'', Text link),
                            (str ''youtubeUrl'', Text (str ''https://example.com/'')),
                            (str ''track'', Blob ap (str ''track'' @ extname w ap)),
                            (str ''cover'', Blob ip (str ''cover'' @ extname w ip))]
                      @ (if req_tagsString r \<noteq> [] then [(str ''tags'', Text (req_tagsString r))]
                         else []))
        in case (if canUseSoundcloud cfg then soundcloud_io w
                 else Resolves (str ''https://example.com/'')) of
             Rejects e \<Rightarrow>
               (sc @ [Respond (str ''An error occurred while uploading the video''
                                @ [0x0A, 0x60, 0x60, 0x60, 0x0A] @ e @ [0x0A, 0x60, 0x60, 0x60])
                        True],
                Resolves ())
           | Resolves link \<Rightarrow>
               (case open_audio w of
                  Rejects e \<Rightarrow> (sc @ fd link @ [OpenAsBlob ap], Rejects e)
                | Resolves _ \<Rightarrow>
                    (case open_image w of
                       Rejects e \<Rightarrow> (sc @ fd link @ [OpenAsBlob ap, OpenAsBlob ip], Rejects e)
                     | Resolves _ \<Rightarrow>
                         (sc @ fd link
                            @ [OpenAsBlob ap, OpenAsBlob ip,
                               FetchHMAC (siteUrl cfg (str ''/api/sound'')) (form link),
                               (case hmac_io w of
                                  Resolves _ \<Rightarrow>
                                    Respond (str ''Uploaded to YouTube: '' @ str ''https://example.com/''
                                               @ [0x0A] @ str ''Uploaded to SoundCloud: '' @ link)
                                      False
                                | Rejects e \<Rightarrow>
                                    Respond (str ''An error occurred while uploading the song''
                                               @ [0x0A, 0x60, 0x60, 0x60, 0x0A] @ e
                                               @ [0x0A, 0x60, 0x60, 0x60]) True),
                               Unlink ap, Unlink ip],
                          Resolves ()))))"
proof -
  have "list_all quiet (fst (run cfg w i))"
    using assms by (rule quiet_run)
  then have q: "\<not> list_ex is_exec (fst (run cfg w i)) \<and> \<not> list_ex is_youtube (fst (run cfg w i))"
    by (auto simp: list_all_iff list_ex_iff quiet_def)
  have t: "transcode cfg w i r = ([], \<lparr>err = None, stdout = [], stderr = []\<rparr>)"
    using assms by (simp add: transcode_def fakeExec_def)
  have r: "channel_sendable i \<and> validate i = Inr r
        \<and> settled (confirmation (user_id i) (ids_yes w) (ids_no w) (events w)) = Some Confirmed
        \<and> snd (download w r) = Resolves () \<longrightarrow>
        run cfg w i =
          ([DeferReply, ChannelSend (prompt r)]
             @ trace (confirmation (user_id i) (ids_yes w) (ids_no w) (events w))
             @ fst (download w r)
             @ fst (callback cfg w i r \<lparr>err = None, stdout = [], stderr = []\<rparr>),
           case snd (callback cfg w i r \<lparr>err = None, stdout = [], stderr = []\<rparr>) of
             Rejects e \<Rightarrow> CallbackThrew e
           | Resolves _ \<Rightarrow> Returned)"
    by (simp add: run_settled after_confirmation_True t)
  have u: "upload_soundcloud cfg w a b t d tags =
       upload_soundcloud (cfg\<lparr>canUseYoutube := True\<rparr>) w a b t d tags"
    by (simp add: upload_soundcloud_def)
  show ?thesis
    by (intro conjI) (rule q [THEN conjunct1], rule q [THEN conjunct2], rule t, rule r, rule u,
        rule callback_without_youtube [OF assms])
qed

theorem youtube_disabled_witness:
  "\<not> canUseYoutube (both\<lparr>canUseYoutube := False\<rparr>)
   \<and> channel_sendable alice \<and> validate alice = Inr alice_request
   \<and> settled (confirmation (user_id alice) (ids_yes fine) (ids_no fine) (events fine)) =
       Some Confirmed
   \<and> snd (download fine alice_request) = Resolves ()
   \<and> run (both\<lparr>canUseYoutube := False\<rparr>) fine alice =
       ([DeferReply, ChannelSend (prompt alice_request), DeletePrompt, Mkdir (str ''.tmp''),
         Fetch (str ''https://cdn/a''), WriteFile (str ''./.tmp/ha.mp3'') [1, 2],
         Fetch (str ''https://cdn/b''), WriteFile (str ''./.tmp/hb.png'') [3],
         SoundcloudUpload (str ''Test Song'') ([0x0A, 0x0A] @ str ''Tags: a, b'')
           [str ''a'', str ''b''] (str ''./.tmp/ha.mp3'') (str ''./.tmp/hb.png''),
         ChannelsFetch (str ''feed''),
         FeedSend (str ''Uploaded by <@42>'' @ [0x0A] @ str ''Title: Test Song'' @ [0x0A]
                     @ str ''YouTube: https://example.com/'' @ [0x0A]
                     @ str ''SoundCloud: https://soundcloud.com/t''),
         OpenAsBlob (str ''./.tmp/ha.mp3''), OpenAsBlob (str ''./.tmp/hb.png''),
         FetchHMAC (str ''https://site/api/sound'')
           [(str ''title'', Text (str ''Test Song'')),
            (str ''soundcloudUrl'', Text (str ''https://soundcloud.com/t'')),
            (str ''youtubeUrl'', Text (str ''https://example.com/'')),
            (str ''track'', Blob (str ''./.tmp/ha.mp3'') (str ''track.mp3'')),
            (str ''cover'', Blob (str ''./.tmp/hb.png'') (str ''cover.png'')),
            (str ''tags'', Text (str ''a, b''))],
         Respond (str ''Uploaded to YouTube: https://example.com/'' @ [0x0A]
                    @ str ''Uploaded to SoundCloud: https://soundcloud.com/t'') False,
         Unlink (str ''./.tmp/ha.mp3''), Unlink (str ''./.tmp/hb.png'')],
        Returned)"
  using youtube_disabled [of "both\<lparr>canUseYoutube := False\<rparr>" fine alice alice_request]
  by (simp add: validate_alice run_alice)
     (simp add: both_def fine_def gate_eval stage_eval path_eval text_eval alice_def
        alice_request_def song_def cover_def endsWith_def str_def)

subsection \<open>Cleaning up\<close>

lemmas world_eval = fine_def both_def encoder_fails_def soundcloud_throws_def
  youtube_rejects_def audio_not_found_def image_unreachable_def audio_unreachable_def

lemmas alice_eval = gate_eval stage_eval path_eval alice_def alice_request_def song_def
  cover_def endsWith_def str_def

text \<open>
  C1. The run deletes the temporary files when YouTube reports a failed upload and after
  the submission to the site, but not on every way out. When the encoder fails, the audio
  and the image have been written and no \<^verbatim>\<open>unlink\<close> is called; when the SoundCloud
  upload throws, the video has been encoded as well and no \<^verbatim>\<open>unlink\<close> is called
  either. The callback returns at lines 204 and 216, before line 220 defines the cleanup.
\<close>

theorem cleanup_skipped_on_failure:
  "filter is_write (fst (run both encoder_fails alice)) =
     [WriteFile (str ''./.tmp/ha.mp3'') [1, 2], WriteFile (str ''./.tmp/hb.png'') [3]]
   \<and> filter is_unlink (fst (run both encoder_fails alice)) = []
   \<and> list_ex is_exec (fst (run both soundcloud_throws alice))
   \<and> filter is_unlink (fst (run both soundcloud_throws alice)) = []
   \<and> filter is_unlink (fst (run both youtube_rejects alice)) =
       [Unlink (str ''./.tmp/42.mp4''), Unlink (str ''./.tmp/ha.mp3''),
        Unlink (str ''./.tmp/hb.png'')]
   \<and> filter is_unlink (fst (run both fine alice)) =
       [Unlink (str ''./.tmp/42.mp4''), Unlink (str ''./.tmp/ha.mp3''),
        Unlink (str ''./.tmp/hb.png'')]"
  by (simp add: run_alice) (simp add: world_eval alice_eval)

text \<open>
  C2, as the code has it. After a confirmed request and a successful \<^verbatim>\<open>mkdir\<close>: when
  the fetch of the audio rejects, the run rejects with that error after one fetch, with
  nothing written and nothing deleted; when the fetch of the image rejects, the run
  rejects with that error after one fetch of each file, and no later stage starts. A fetch
  that resolves is not a failure whatever its status is: the body is written and the run
  goes on to the encoder and the callback.
\<close>

theorem download_failure_aborts:
  assumes "channel_sendable i" and "validate i = Inr r"
    and "settled (confirmation (user_id i) (ids_yes w) (ids_no w) (events w)) = Some Confirmed"
    and "mkdir_io w = Resolves ()"
  shows "(fetch_audio w = Rejects e \<longrightarrow>
            run cfg w i =
              ([DeferReply, ChannelSend (prompt r)]
                 @ trace (confirmation (user_id i) (ids_yes w) (ids_no w) (events w))
                 @ [Mkdir (str ''.tmp''), Fetch (url (req_audio r))], Threw e))
         \<and> (fetch_audio w = Resolves (st, body) \<and> write_audio w = Resolves ()
              \<and> fetch_image w = Rejects e \<longrightarrow>
            run cfg w i =
              ([DeferReply, ChannelSend (prompt r)]
                 @ trace (confirmation (user_id i) (ids_yes w) (ids_no w) (events w))
                 @ [Mkdir (str ''.tmp''), Fetch (url (req_audio r)),
                    WriteFile (audioPath w (req_audio r)) body, Fetch (url (req_image r))],
               Threw e))
         \<and> (fetch_audio w = Resolves (st, body) \<and> write_audio w = Resolves ()
              \<and> fetch_image w = Resolves (st', body') \<and> write_image w = Resolves () \<longrightarrow>
            run cfg w i =
              ([DeferReply, ChannelSend (prompt r)]
                 @ trace (confirmation (user_id i) (ids_yes w) (ids_no w) (events w))
                 @ [Mkdir (str ''.tmp''), Fetch (url (req_audio r)),
                    WriteFile (audioPath w (req_audio r)) body, Fetch (url (req_image r)),
                    WriteFile (imagePath w (req_image r)) body']
                 @ fst (transcode cfg w i r)
                 @ fst (callback cfg w i r (snd (transcode cfg w i r))),
               case snd (callback cfg w i r (snd (transcode cfg w i r))) of
                 Rejects e' \<Rightarrow> CallbackThrew e'
               | Resolves _ \<Rightarrow> Returned))"
  using assms(4)
  by (simp add: run_settled [OF assms(1,2,3)] after_confirmation_True
        download_audio_rejected download_image_rejected download_any_status)

theorem download_failure_aborts_witness:
  "channel_sendable alice \<and> validate alice = Inr alice_request
   \<and> settled (confirmation (user_id alice) (ids_yes fine) (ids_no fine) (events fine)) = Some Confirmed
   \<and> mkdir_io fine = Resolves ()
   \<and> fetch_audio audio_unreachable = Rejects (str ''ECONNRESET'')
   \<and> run both audio_unreachable alice =
       ([DeferReply, ChannelSend (prompt alice_request), DeletePrompt, Mkdir (str ''.tmp''),
         Fetch (str ''https://cdn/a'')], Threw (str ''ECONNRESET''))
   \<and> fetch_image image_unreachable = Rejects (str ''ECONNRESET'')
   \<and> snd (run both image_unreachable alice) = Threw (str ''ECONNRESET'')
   \<and> filter is_fetch (fst (run both image_unreachable alice)) =
       [Fetch (str ''https://cdn/a''), Fetch (str ''https://cdn/b'')]
   \<and> fetch_audio audio_not_found = Resolves (404, [9])
   \<and> filter is_write (fst (run both audio_not_found alice)) =
       [WriteFile (str ''./.tmp/ha.mp3'') [9], WriteFile (str ''./.tmp/hb.png'') [3]]"
  using download_failure_aborts [of alice alice_request audio_unreachable "str ''ECONNRESET''"
          both 200 "[]" 200 "[]"]
    download_failure_aborts [of alice alice_request image_unreachable "str ''ECONNRESET''"
          both 200 "[1, 2]" 200 "[]"]
    download_failure_aborts [of alice alice_request audio_not_found "[]" both 404 "[9]" 200 "[3]"]
  by (simp add: validate_alice run_alice) (simp add: world_eval alice_eval)

text \<open>
  C2 as stated fails: the audio URL answers 404, and the run writes the body of that
  answer as the audio file, publishes it and returns. And when the fetch of the image
  rejects after the audio was written, the audio file is not deleted.
\<close>

theorem http_error_status_counterexample:
  "fetch_audio audio_not_found = Resolves (404, [9])
   \<and> snd (run both audio_not_found alice) = Returned
   \<and> filter is_write (fst (run both audio_not_found alice)) =
       [WriteFile (str ''./.tmp/ha.mp3'') [9], WriteFile (str ''./.tmp/hb.png'') [3]]
   \<and> list_ex is_soundcloud (fst (run both audio_not_found alice))
   \<and> fetch_image image_unreachable = Rejects (str ''ECONNRESET'')
   \<and> filter is_write (fst (run both image_unreachable alice)) =
       [WriteFile (str ''./.tmp/ha.mp3'') [1, 2]]
   \<and> filter is_unlink (fst (run both image_unreachable alice)) = []"
  by (simp add: run_alice) (simp add: world_eval alice_eval)

subsection \<open>The path of the video\<close>

text \<open>
  C10. The scratch path of the transcoded video is built from the requester's user id
  alone: two runs by the same requester get the same path, whatever their audio and image
  attachments are. It is \<^verbatim>\<open>./.tmp/<user id>.mp4\<close>, and it is the path the encoder of
  either run writes to.
\<close>

theorem videoPath_from_user_id_only:
  "user_id i = user_id j \<Longrightarrow>
     videoPath i = videoPath j
     \<and> videoPath i = str ''./.tmp/'' @ user_id i @ str ''.mp4''
     \<and> fst (transcode cfg w i r) =
         (if canUseYoutube cfg
          then [Exec (ffmpeg (imagePath w (req_image r)) (audioPath w (req_audio r)) (videoPath j))]
          else [])
     \<and> endsWith (ffmpeg (imagePath w (req_image r)) (audioPath w (req_audio r)) (videoPath j))
           (videoPath i)"
  by (simp add: videoPath_def transcode_def ffmpeg_def endsWith_def)

theorem videoPath_from_user_id_only_witness:
  "user_id alice = user_id alice_again
   \<and> opt_audio alice \<noteq> opt_audio alice_again
   \<and> opt_image alice \<noteq> opt_image alice_again
   \<and> validate alice_again =
       Inr \<lparr>req_audio = \<lparr>name = str ''other.wav'', url = str ''https://cdn/c''\<rparr>,
            req_image = \<lparr>name = str ''other.jpg'', url = str ''https://cdn/d''\<rparr>,
            req_title = str ''Test Song'', req_description = [],
            req_tagsString = str ''a, b'', req_tags = [str ''a'', str ''b'']\<rparr>
   \<and> videoPath alice = videoPath alice_again
   \<and> videoPath alice = str ''./.tmp/42.mp4''"
  using videoPath_from_user_id_only [of alice alice_again]
  by (simp add: alice_again_def request_eval videoPath_def str_def)

subsection \<open>The line of tags\<close>

text \<open>
  C5. With an empty tag list the description sent to YouTube ends with the line
  \<^verbatim>\<open>Tags: N/A\<close>, but the description sent to SoundCloud ends with \<^verbatim>\<open>Tags: \<close> and
  nothing after it: line 41 tests the array itself, which is always truthy, where line 28
  tests its length.
\<close>

theorem soundcloud_description_without_tags:
  "fst (upload_soundcloud both w a b t d []) =
     [SoundcloudUpload t (d @ nl @ nl @ str ''Tags: '') [] a b]
   \<and> filter is_youtube (fst (upload_youtube both w v t d [])) =
     [YoutubeUpload t (d @ nl @ nl @ str ''Tags: N/A'') [] v]"
  by (cases "youtube_io w")
     (simp_all add: upload_soundcloud_def upload_youtube_def call_def await_def both_def
        soundcloudDescription_def youtubeDescription_def array_truthy_def str_def)

end
